theory Spec2Isabelle
  imports Complex_Main "HOL-Library.Sublist"
begin

section \<open>Python primitives\<close>

text \<open>
  Python strings are sequences of code points; here a text is a \<open>string\<close> and \<open>length\<close>
  plays the role of \<open>len\<close>. Python integers are unbounded: \<open>int\<close>. A slice bound \<open>i\<close>
  on a sequence of length \<open>n\<close> counts from the end when negative and is clipped to
  \<open>0..n\<close>; \<open>str.rfind(c, s, e)\<close> reads its bounds the same way and answers \<open>-1\<close> when
  the character does not occur.
\<close>

definition py_index :: "nat \<Rightarrow> int \<Rightarrow> nat" where
  "py_index n i = (if i < 0 then nat (max 0 (i + int n)) else min (nat i) n)"

definition py_slice :: "'a list \<Rightarrow> int \<Rightarrow> int \<Rightarrow> 'a list" where
  "py_slice xs s e = drop (py_index (length xs) s) (take (py_index (length xs) e) xs)"

fun rfind_between :: "string \<Rightarrow> char \<Rightarrow> nat \<Rightarrow> nat \<Rightarrow> int" where
  "rfind_between text c lo 0 = - 1"
| "rfind_between text c lo (Suc j) =
     (if Suc j \<le> lo then - 1
      else if text ! j = c then int j
      else rfind_between text c lo j)"

definition rfind :: "string \<Rightarrow> char \<Rightarrow> int \<Rightarrow> int \<Rightarrow> int" where
  "rfind text c s e = rfind_between text c (py_index (length text) s) (py_index (length text) e)"

section \<open>Large-text chunking (tests/test_large_text_chunking.py)\<close>

text \<open>
  \<open>estimate_tokens\<close> and \<open>chunk_large_text_for_extraction\<close>. The \<open>while\<close> loop is
  \<open>chunk_loop\<close>: it need not terminate for every choice of the size parameters, so it is a
  partial function whose value \<open>None\<close> stands for running forever. The computation of
  \<open>end_char\<close> inside the loop body is \<open>cut_point\<close>.
\<close>

definition estimate_tokens :: "string \<Rightarrow> int" where
  \<comment> \<open>\<open>return len(text) // 4\<close>\<close>
  "estimate_tokens text = int (length text) div 4"

record chunk_window =
  chunk_text :: string
  start_char :: int
  end_char :: int
  chunk_index :: int
  total_chunks :: "int option"

definition cut_point :: "string \<Rightarrow> int \<Rightarrow> int \<Rightarrow> int" where
  "cut_point txt start_c chunk_size_chars =
     (let end_c = min (start_c + chunk_size_chars) (int (length txt))
      in if end_c < int (length txt) then
           (let search_start = max (end_c - 500) start_c;
                last_period = rfind txt (CHR ''.'') search_start end_c;
                last_exclaim = rfind txt (CHR ''!'') search_start end_c;
                last_question = rfind txt (CHR ''?'') search_start end_c;
                boundary = max (max last_period last_exclaim) last_question
            in if boundary > search_start then boundary + 1 else end_c)
         else end_c)"

partial_function (option) chunk_loop ::
  "string \<Rightarrow> int \<Rightarrow> int \<Rightarrow> int \<Rightarrow> int \<Rightarrow> chunk_window list \<Rightarrow> chunk_window list option" where
  "chunk_loop txt chunk_size_chars overlap_chars start_c idx chunks =
     (if start_c < int (length txt) then
        (let end_c = cut_point txt start_c chunk_size_chars;
             chunks' = chunks @ [\<lparr>chunk_text = py_slice txt start_c end_c, start_char = start_c,
                                  end_char = end_c, chunk_index = idx, total_chunks = None\<rparr>]
         in if end_c \<ge> int (length txt) then Some chunks'
            else chunk_loop txt chunk_size_chars overlap_chars (end_c - overlap_chars) (idx + 1) chunks')
      else Some chunks)"

declare chunk_loop.simps [code]

definition chunk_large_text_for_extraction ::
  "string \<Rightarrow> int \<Rightarrow> int \<Rightarrow> int \<Rightarrow> chunk_window list option" where
  "chunk_large_text_for_extraction txt chunk_size_tokens overlap_tokens heuristic_tokens =
     (if estimate_tokens txt \<le> 10000 then
        Some [\<lparr>chunk_text = txt, start_char = 0, end_char = int (length txt), chunk_index = 0,
               total_chunks = Some 1\<rparr>]
      else
        (case chunk_loop txt (chunk_size_tokens * 4) (overlap_tokens * 4) 0 0 [] of
           None \<Rightarrow> None
         | Some chunks \<Rightarrow>
             Some (map (\<lambda>c. c\<lparr>total_chunks := Some (int (length chunks))\<rparr>) chunks)))"

text \<open>
  What the loop produces with the default sizes (40000 characters to a window, 2000
  characters of overlap), as a predicate on the list of windows: \<open>windows_from txt s i\<close>
  describes the windows made from the start position \<open>s\<close> and the index \<open>i\<close> on.
  \<open>window_ok\<close> says that a window is a non-empty slice of the text of at most 40000
  characters.
\<close>

fun windows_from :: "string \<Rightarrow> int \<Rightarrow> int \<Rightarrow> chunk_window list \<Rightarrow> bool" where
  "windows_from txt s i [] = False"
| "windows_from txt s i (w # ws) =
     (w = \<lparr>chunk_text = py_slice txt s (cut_point txt s 40000), start_char = s,
           end_char = cut_point txt s 40000, chunk_index = i, total_chunks = None\<rparr> \<and>
      (if int (length txt) \<le> cut_point txt s 40000 then ws = []
       else windows_from txt (cut_point txt s 40000 - 2000) (i + 1) ws))"

definition window_ok :: "string \<Rightarrow> chunk_window \<Rightarrow> bool" where
  "window_ok txt w =
     (0 \<le> start_char w \<and> start_char w < end_char w \<and> end_char w \<le> int (length txt) \<and>
      end_char w - start_char w \<le> 40000 \<and>
      chunk_text w = py_slice txt (start_char w) (end_char w))"

text \<open>
  A text of 40004 characters whose only sentence punctuation is a full stop at index 39500,
  exactly 500 characters before the first target cut at 40000.
\<close>

definition slip_text :: string where
  "slip_text = replicate 39500 (CHR ''a'') @ CHR ''.'' # replicate 503 (CHR ''a'')"

section \<open>Dossier fact embeddings (hmlr/memory/dossier_storage.py)\<close>

text \<open>
  The table \<open>dossier_fact_embeddings\<close> (\<open>_initialize_table\<close>): \<open>fact_id\<close> is the primary
  key. A table is the list of its rows in rowid order, which is the order a full scan
  (\<open>SELECT ... FROM dossier_fact_embeddings\<close>, no \<open>ORDER BY\<close>) visits them. The embedding
  model and the blob encoding are outside the repository: \<open>encode\<close> is a parameter
  (\<open>None\<close> when it raises) and an embedding is a value of an arbitrary type \<open>'e\<close>.
\<close>

record 'e embedding_row =
  fact_id :: string
  dossier_id :: string
  embedding :: 'e
  created_at :: string

type_synonym 'e embedding_table = "'e embedding_row list"

text \<open>
  \<open>INSERT OR REPLACE\<close>: a row with the same primary key is deleted, the new row gets a fresh,
  largest rowid. \<open>db_raises\<close> says that sqlite3 raises during the call (before the commit);
  every exception is caught and turned into the result \<open>False\<close>.
\<close>

definition insert_or_replace :: "'e embedding_row \<Rightarrow> 'e embedding_table \<Rightarrow> 'e embedding_table" where
  "insert_or_replace row table = filter (\<lambda>r. fact_id r \<noteq> fact_id row) table @ [row]"

definition save_fact_embedding ::
  "(string \<Rightarrow> 'e option) \<Rightarrow> bool \<Rightarrow> string \<Rightarrow> 'e embedding_table \<Rightarrow>
   string \<Rightarrow> string \<Rightarrow> string \<Rightarrow> bool \<times> 'e embedding_table" where
  "save_fact_embedding encode db_raises now table fid did fact_text =
     (case encode fact_text of
        None \<Rightarrow> (False, table)
      | Some emb \<Rightarrow>
          if db_raises then (False, table)
          else (True, insert_or_replace
                  \<lparr>fact_id = fid, dossier_id = did, embedding = emb, created_at = now\<rparr> table))"

definition delete_dossier_embeddings ::
  "bool \<Rightarrow> 'e embedding_table \<Rightarrow> string \<Rightarrow> bool \<times> 'e embedding_table" where
  "delete_dossier_embeddings db_raises table did =
     (if db_raises then (False, table)
      else (True, filter (\<lambda>r. dossier_id r \<noteq> did) table))"

datatype storage_op =
    SaveFactEmbedding string string string string bool
  | DeleteDossierEmbeddings string bool

fun apply_storage_op ::
  "(string \<Rightarrow> 'e option) \<Rightarrow> 'e embedding_table \<Rightarrow> storage_op \<Rightarrow> 'e embedding_table" where
  "apply_storage_op encode table (SaveFactEmbedding fid did fact_text now db_raises) =
     snd (save_fact_embedding encode db_raises now table fid did fact_text)"
| "apply_storage_op encode table (DeleteDossierEmbeddings did db_raises) =
     snd (delete_dossier_embeddings db_raises table did)"

definition run_storage_ops ::
  "(string \<Rightarrow> 'e option) \<Rightarrow> storage_op list \<Rightarrow> 'e embedding_table \<Rightarrow> 'e embedding_table" where
  "run_storage_ops encode ops table = foldl (apply_storage_op encode) table ops"

text \<open>
  \<open>search_similar_facts\<close>. A similarity is a Python float: a number or NaN, and a comparison
  with NaN is false. \<open>cosine\<close> is the similarity computation on two embeddings (\<open>None\<close> when
  numpy raises, which makes the whole search return the empty list). Only numbers pass
  the threshold test, so a kept score is a \<open>real\<close>. \<open>list.sort(key, reverse=True)\<close> reverses
  the list, sorts it stably in ascending order and reverses it again.
\<close>

datatype pyfloat = NaN | Fin real

fun float_ge :: "pyfloat \<Rightarrow> pyfloat \<Rightarrow> bool" where
  "float_ge (Fin a) (Fin b) = (b \<le> a)"
| "float_ge _ _ = False"

type_synonym fact_match = "string \<times> string \<times> real"

definition match_score :: "fact_match \<Rightarrow> real" where
  "match_score m = snd (snd m)"

fun scan_rows ::
  "('e \<Rightarrow> 'e \<Rightarrow> pyfloat option) \<Rightarrow> 'e \<Rightarrow> pyfloat \<Rightarrow> 'e embedding_table \<Rightarrow> fact_match list option" where
  "scan_rows cosine q threshold [] = Some []"
| "scan_rows cosine q threshold (r # rs) =
     (case cosine q (embedding r) of
        None \<Rightarrow> None
      | Some similarity \<Rightarrow>
          (case scan_rows cosine q threshold rs of
             None \<Rightarrow> None
           | Some results \<Rightarrow>
               (case similarity of
                  Fin s \<Rightarrow>
                    if float_ge (Fin s) threshold
                    then Some ((fact_id r, dossier_id r, s) # results)
                    else Some results
                | NaN \<Rightarrow> Some results)))"

definition sort_reverse :: "('a \<Rightarrow> real) \<Rightarrow> 'a list \<Rightarrow> 'a list" where
  "sort_reverse key xs = rev (sort_key key (rev xs))"

definition search_similar_facts ::
  "(string \<Rightarrow> 'e option) \<Rightarrow> ('e \<Rightarrow> 'e \<Rightarrow> pyfloat option) \<Rightarrow> bool \<Rightarrow> 'e embedding_table \<Rightarrow>
   string \<Rightarrow> int \<Rightarrow> pyfloat \<Rightarrow> fact_match list" where
  "search_similar_facts encode cosine db_raises table query top_k threshold =
     (case encode query of
        None \<Rightarrow> []
      | Some q \<Rightarrow>
          if db_raises then []
          else (case scan_rows cosine q threshold table of
                  None \<Rightarrow> []
                | Some results \<Rightarrow>
                    (let sorted_results = sort_reverse match_score results
                     in take (py_index (length sorted_results) top_k) sorted_results)))"

text \<open>
  The rows that pass the threshold for a query, in the order in which they are stored:
  the list \<open>results\<close> of the source before it is sorted.
\<close>

definition stored_matches ::
  "(string \<Rightarrow> 'e option) \<Rightarrow> ('e \<Rightarrow> 'e \<Rightarrow> pyfloat option) \<Rightarrow> 'e embedding_table \<Rightarrow>
   string \<Rightarrow> pyfloat \<Rightarrow> fact_match list" where
  "stored_matches encode cosine table query threshold =
     (case encode query of
        None \<Rightarrow> []
      | Some q \<Rightarrow> (case scan_rows cosine q threshold table of None \<Rightarrow> [] | Some ms \<Rightarrow> ms))"

text \<open>Two stored facts with the same similarity to every query.\<close>

definition two_fact_table :: "string embedding_table" where
  "two_fact_table =
     [\<lparr>fact_id = ''fact_001'', dossier_id = ''dos_diet'', embedding = ''e1'', created_at = ''t1''\<rparr>,
      \<lparr>fact_id = ''fact_002'', dossier_id = ''dos_diet'', embedding = ''e2'', created_at = ''t2''\<rparr>]"

definition unit_cosine :: "string \<Rightarrow> string \<Rightarrow> pyfloat option" where
  "unit_cosine q e = Some (Fin 1)"

section \<open>Sliding-window persistence (hmlr/memory/sliding_window_persistence.py)\<close>

text \<open>
  \<open>load_window\<close>. \<open>json.load\<close> is a library function: the state of the file is either that
  it does not exist, that opening or parsing it raises, or the JSON value it holds. A JSON
  object is an association list (\<open>map_of\<close> looks a key up). \<open>ConversationTurn\<close> is a
  dataclass declared outside the files at hand; its constructor stores the keyword
  arguments as they are, so the fields (prefixed \<open>ct_\<close> here) hold JSON values. \<open>datetime.fromisoformat\<close> is a
  parameter (\<open>None\<close> when it raises).
\<close>

datatype json =
    JNull
  | JBool bool
  | JInt int
  | JFloat real
  | JStr string
  | JArr "json list"
  | JObj "(string \<times> json) list"

datatype window_file = Missing | Unreadable | Parsed json

datatype load_error = SlidingWindowStateError | AttributeError

record 'dt conversation_turn =
  ct_turn_id :: json
  ct_session_id :: json
  ct_day_id :: json
  ct_timestamp :: json
  ct_turn_sequence :: json
  ct_user_message :: json
  ct_assistant_response :: json
  ct_detail_level :: json
  ct_compressed_content :: json
  ct_compression_timestamp :: "'dt option"
  ct_keywords :: json
  ct_assistant_summary :: json

definition dict_get :: "(string \<times> json) list \<Rightarrow> string \<Rightarrow> json \<Rightarrow> json" where
  "dict_get d k dflt = (case map_of d k of None \<Rightarrow> dflt | Some v \<Rightarrow> v)"

fun truthy :: "json \<Rightarrow> bool" where
  "truthy JNull = False"
| "truthy (JBool b) = b"
| "truthy (JInt i) = (i \<noteq> 0)"
| "truthy (JFloat x) = (x \<noteq> 0)"
| "truthy (JStr s) = (s \<noteq> [])"
| "truthy (JArr xs) = (xs \<noteq> [])"
| "truthy (JObj kvs) = (kvs \<noteq> [])"

fun iterate :: "json \<Rightarrow> json list option" where
  "iterate (JArr xs) = Some xs"
| "iterate (JObj kvs) = Some (map (\<lambda>kv. JStr (fst kv)) kvs)"
| "iterate (JStr s) = Some (map (\<lambda>c. JStr [c]) s)"
| "iterate _ = None"

definition parse_compression_timestamp ::
  "(string \<Rightarrow> 'dt option) \<Rightarrow> (string \<times> json) list \<Rightarrow> 'dt option option" where
  "parse_compression_timestamp fromisoformat d =
     (if truthy (dict_get d ''compression_timestamp'' JNull) then
        (case map_of d ''compression_timestamp'' of
           Some (JStr s) \<Rightarrow> (case fromisoformat s of None \<Rightarrow> None | Some t \<Rightarrow> Some (Some t))
         | _ \<Rightarrow> None)
      else Some None)"

definition deserialize_turn ::
  "(string \<Rightarrow> 'dt option) \<Rightarrow> json \<Rightarrow> 'dt conversation_turn option" where
  "deserialize_turn fromisoformat turn_data =
     (case turn_data of
        JObj d \<Rightarrow>
          (case (map_of d ''turn_id'', map_of d ''session_id'', map_of d ''day_id'',
                 map_of d ''timestamp'', map_of d ''turn_sequence'', map_of d ''user_message'',
                 map_of d ''assistant_response'') of
             (Some tid, Some sid, Some did, Some ts, Some tseq, Some um, Some ar) \<Rightarrow>
               (case parse_compression_timestamp fromisoformat d of
                  None \<Rightarrow> None
                | Some ct \<Rightarrow>
                    Some \<lparr>ct_turn_id = tid, ct_session_id = sid, ct_day_id = did, ct_timestamp = ts,
                          ct_turn_sequence = tseq, ct_user_message = um, ct_assistant_response = ar,
                          ct_detail_level = dict_get d ''detail_level'' (JStr ''VERBATIM''),
                          ct_compressed_content = dict_get d ''compressed_content'' JNull,
                          ct_compression_timestamp = ct,
                          ct_keywords = dict_get d ''keywords'' (JArr []),
                          ct_assistant_summary = dict_get d ''assistant_summary'' JNull\<rparr>)
           | _ \<Rightarrow> None)
      | _ \<Rightarrow> None)"

fun deserialize_turns ::
  "(string \<Rightarrow> 'dt option) \<Rightarrow> json list \<Rightarrow> 'dt conversation_turn list option" where
  "deserialize_turns fromisoformat [] = Some []"
| "deserialize_turns fromisoformat (turn_data # rest) =
     (case deserialize_turn fromisoformat turn_data of
        None \<Rightarrow> None
      | Some turn \<Rightarrow>
          (case deserialize_turns fromisoformat rest of
             None \<Rightarrow> None
           | Some turns \<Rightarrow> Some (turn # turns)))"

definition STATE_VERSION :: string where
  "STATE_VERSION = ''1''"

definition load_window ::
  "(string \<Rightarrow> 'dt option) \<Rightarrow> window_file \<Rightarrow> load_error + 'dt conversation_turn list" where
  "load_window fromisoformat file =
     (case file of
        Missing \<Rightarrow> Inr []
      | Unreadable \<Rightarrow> Inl SlidingWindowStateError
      | Parsed state \<Rightarrow>
          (case state of
             JObj d \<Rightarrow>
               if dict_get d ''version'' JNull \<noteq> JStr STATE_VERSION
               then Inl SlidingWindowStateError
               else (case iterate (dict_get d ''turns'' (JArr [])) of
                       None \<Rightarrow> Inl SlidingWindowStateError
                     | Some items \<Rightarrow>
                         (case deserialize_turns fromisoformat items of
                            None \<Rightarrow> Inl SlidingWindowStateError
                          | Some turns \<Rightarrow> Inr turns))
           | _ \<Rightarrow> Inl AttributeError))"

section \<open>Conversation engine (hmlr/core/conversation_engine.py)\<close>

text \<open>
  The engine calls collaborators whose code is outside the files at hand (storage,
  governor, hydrator, language model client, chunk engine, fact scrubber, conversation
  manager, sliding window, embedding storage). Each call is a field of the record \<open>env\<close>:
  a function of the arguments the engine passes, with the exception it raises (\<open>Inl\<close>) or
  the value it returns (\<open>Inr\<close>). Memories, facts and dossiers are opaque to the engine and
  are strings here.
\<close>

datatype exn = ApiConnectionError | RetrievalError | StorageWriteError | OtherException

datatype response_status = SUCCESS | PARTIAL | ERROR

record conversation_response =
  response_text :: string
  status :: response_status
  detected_intent :: string
  detected_action :: string
  contexts_retrieved :: nat
  error_message :: "exn option"

type_synonym memory = string
type_synonym fact = string
type_synonym dossier = string

datatype chunk_kind = TurnChunk | ParagraphChunk | SentenceChunk

record chunk =
  chunk_id :: string
  chunk_type :: chunk_kind
  text_verbatim :: string
  parent_chunk_id :: "string option"
  token_count :: int

text \<open>
  The routing decision is a dict read with \<open>get\<close>: a field is \<open>None\<close> when the key is
  missing or null. \<open>routing_decision.get('is_new_topic', False)\<close> is then false, and a
  missing label is \<open>General Discussion\<close> (a null label is read like a missing one).
\<close>

record routing_decision =
  matched_block_id :: "string option"
  is_new_topic :: "bool option"
  suggested_label :: "string option"

definition default_routing :: routing_decision where
  "default_routing =
     \<lparr>matched_block_id = None, is_new_topic = Some True,
      suggested_label = Some ''General Discussion''\<rparr>"

subsection \<open>The daily ledger of bridge blocks\<close>

datatype block_status = ACTIVE | PAUSED | CLOSED

record bridge_block =
  block_id :: string
  block_day_id :: string
  block_status :: block_status
  topic_label :: string
  block_keywords :: "string list"
  summary :: "string option"

type_synonym ledger = "bridge_block list"

definition get_active_bridge_blocks :: "string \<Rightarrow> ledger \<Rightarrow> bridge_block list" where
  \<comment> \<open>Modelled from the spec: the storage method is not among the files at hand. Section 6
      gives the table \<open>daily_ledger\<close> (key \<open>block_id\<close>, columns \<open>day_id\<close>, \<open>status\<close>) and
      sections 4.4 and 4.5 speak of the active block of a day and of the day's existing
      blocks: the query answers the rows of the current day whose status is \<open>ACTIVE\<close>, in
      the order of the table. The storage reads the current day itself; here it is the
      first argument.\<close>
  "get_active_bridge_blocks day l =
     filter (\<lambda>b. block_day_id b = day \<and> block_status b = ACTIVE) l"

definition update_bridge_block_status :: "string \<Rightarrow> block_status \<Rightarrow> ledger \<Rightarrow> ledger" where
  \<comment> \<open>Modelled from the spec: the storage method is not among the files at hand. It writes
      the column \<open>status\<close> of the row with the given \<open>block_id\<close>.\<close>
  "update_bridge_block_status bid st l =
     map (\<lambda>b. if block_id b = bid then b\<lparr>block_status := st\<rparr> else b) l"

definition generate_block_summary :: "(bridge_block \<Rightarrow> string) \<Rightarrow> string \<Rightarrow> ledger \<Rightarrow> ledger" where
  \<comment> \<open>Modelled from the spec: the storage method is not among the files at hand. Section 4.4:
      it produces the header summary of the block and leaves the block in its state.\<close>
  "generate_block_summary summarize bid l =
     map (\<lambda>b. if block_id b = bid then b\<lparr>summary := Some (summarize b)\<rparr> else b) l"

definition force_pause :: "(bridge_block \<Rightarrow> string) \<Rightarrow> string \<Rightarrow> ledger \<Rightarrow> ledger" where
  \<comment> \<open>Modelled from the spec: section 4.4, "Creating a new active block while one exists
      forces the prior one to \<open>PAUSED\<close>", and the summary is generated on every transition
      from \<open>ACTIVE\<close> to \<open>PAUSED\<close>.\<close>
  "force_pause summarize day l =
     map (\<lambda>b. if block_day_id b = day \<and> block_status b = ACTIVE
              then b\<lparr>block_status := PAUSED, summary := Some (summarize b)\<rparr> else b) l"

definition create_new_bridge_block ::
  "(bridge_block \<Rightarrow> string) \<Rightarrow> string \<Rightarrow> string \<Rightarrow> string \<Rightarrow> string list \<Rightarrow> ledger \<Rightarrow>
   string \<times> ledger" where
  \<comment> \<open>Modelled from the spec: the storage method is not among the files at hand. Sections 3,
      4.4 and 6: an active block of the day is forced to \<open>PAUSED\<close>, then a row with the new
      identifier \<open>new_id\<close>, the given day, label and keywords and the status \<open>ACTIVE\<close> is
      inserted; the identifier is the answer.\<close>
  "create_new_bridge_block summarize new_id day label kws l =
     (new_id,
      force_pause summarize day l @
        [\<lparr>block_id = new_id, block_day_id = day, block_status = ACTIVE,
          topic_label = label, block_keywords = kws, summary = None\<rparr>])"

definition active_blocks_of_day :: "string \<Rightarrow> ledger \<Rightarrow> bridge_block list" where
  "active_blocks_of_day day l = filter (\<lambda>b. block_day_id b = day \<and> block_status b = ACTIVE) l"

subsection \<open>Routing execution (\<open>_handle_chat\<close>, "Routing Execution")\<close>

definition truthy_id :: "string option \<Rightarrow> bool" where
  \<comment> \<open>Python truth of an optional string: \<open>None\<close> and the empty string are false\<close>
  "truthy_id m = (case m of None \<Rightarrow> False | Some s \<Rightarrow> s \<noteq> [])"

definition pause_block :: "(bridge_block \<Rightarrow> string) \<Rightarrow> string \<Rightarrow> ledger \<Rightarrow> ledger" where
  \<comment> \<open>\<open>update_bridge_block_status(old_active_id, 'PAUSED')\<close>, then
      \<open>generate_block_summary(old_active_id)\<close>\<close>
  "pause_block summarize old_active_id l =
     generate_block_summary summarize old_active_id
       (update_bridge_block_status old_active_id PAUSED l)"

definition execute_routing ::
  "(bridge_block \<Rightarrow> string) \<Rightarrow> string \<Rightarrow> routing_decision \<Rightarrow> string \<Rightarrow> string list \<Rightarrow> ledger \<Rightarrow>
   (string option \<times> bool) \<times> ledger" where
  "execute_routing summarize new_id rd day kws l =
     (let matched = matched_block_id rd;
          is_new = (is_new_topic rd = Some True);
          label = (case suggested_label rd of None \<Rightarrow> ''General Discussion'' | Some s \<Rightarrow> s);
          last_active_block =
            List.find (\<lambda>b. block_status b = ACTIVE) (get_active_bridge_blocks day l)
      in if truthy_id matched \<and>
            (case last_active_block of None \<Rightarrow> False | Some b \<Rightarrow> matched = Some (block_id b))
         then ((matched, False), l)
         else if truthy_id matched \<and> \<not> is_new then
           (let l1 = (case last_active_block of
                        None \<Rightarrow> l
                      | Some b \<Rightarrow> pause_block summarize (block_id b) l)
            in ((matched, False),
                (case matched of None \<Rightarrow> l1 | Some m \<Rightarrow> update_bridge_block_status m ACTIVE l1)))
         else if is_new \<and> last_active_block = None then
           (let (bid, l1) = create_new_bridge_block summarize new_id day label kws l
            in ((Some bid, True), l1))
         else if is_new \<and> last_active_block \<noteq> None then
           (let l1 = (case last_active_block of
                        None \<Rightarrow> l
                      | Some b \<Rightarrow> pause_block summarize (block_id b) l);
                (bid, l2) = create_new_bridge_block summarize new_id day label kws l1
            in ((Some bid, True), l2))
         else
           (let (bid, l1) = create_new_bridge_block summarize new_id day label kws l
            in ((Some bid, True), l1)))"

subsection \<open>Collaborators\<close>

record logged_turn =
  logged_turn_id :: string

record turn_data =
  td_turn_id :: string
  td_user_message :: string
  td_ai_response :: string
  td_chunks :: "chunk list"

record env =
  api_client_available :: bool
  trigger_scribe :: "exn option"
  chunk_engine :: "(string \<Rightarrow> string \<Rightarrow> exn + chunk list) option"
  fact_scrubber :: "(string \<Rightarrow> string \<Rightarrow> chunk list \<Rightarrow> exn + fact list) option"
  nano_keywords :: "string list"
  current_day :: string
  new_turn_id :: string
  new_block_id :: string
  govern :: "string \<Rightarrow> string \<Rightarrow> exn + (routing_decision \<times> memory list \<times> fact list \<times> dossier list)"
  summarize :: "bridge_block \<Rightarrow> string"
  update_facts_block_id :: "string \<Rightarrow> string \<Rightarrow> exn + nat"
  get_facts_for_block :: "string option \<Rightarrow> exn + fact list"
  hydrate_bridge_block ::
    "string option \<Rightarrow> memory list \<Rightarrow> fact list \<Rightarrow> string \<Rightarrow> bool \<Rightarrow> dossier list \<Rightarrow> exn + string"
  query_external_api :: "string \<Rightarrow> exn + string"
  extract_metadata :: "string \<Rightarrow> (json \<times> string) option"
  append_turn_to_block :: "string option \<Rightarrow> turn_data \<Rightarrow> exn + bool"
  log_turn :: "string \<Rightarrow> string \<Rightarrow> string \<Rightarrow> exn + logged_turn"
  add_turn :: "logged_turn \<Rightarrow> exn option"

text \<open>
  \<open>api_client_available\<close>: \<open>self.governor\<close> and its \<open>api_client\<close> are set.
  \<open>trigger_scribe\<close>: the exception raised while the background task is added, if any.
  \<open>chunk_engine\<close>, \<open>fact_scrubber\<close>: \<open>None\<close> when the component is absent; \<open>chunk_turn\<close> takes
  the text and the turn id, \<open>extract_and_save\<close> the turn id, the text and the chunks.
  \<open>new_turn_id\<close>, \<open>new_block_id\<close>: the identifiers minted from the clock.
  \<open>extract_metadata\<close>: the regular expression for a fenced JSON block together with
  \<open>json.loads\<close>; \<open>Some (metadata, stripped)\<close> when a block is found and parses, the second
  component being the response with the block removed.
  \<open>log_turn\<close> is \<open>conversation_mgr.log_turn(session_id, user_message, assistant_response)\<close>.
\<close>

subsection \<open>\<open>log_conversation_turn\<close>\<close>

text \<open>
  The result is the exception raised or \<open>()\<close>, together with the calls made to
  \<open>embedding_storage.save_turn_embeddings(turn_id, text_chunks)\<close>. An exception of the
  chunk engine or of the embedding storage is caught and logged; a failure of \<open>log_turn\<close>
  or \<open>add_turn\<close> is raised again as \<open>StorageWriteError\<close>.
\<close>

definition sentence_texts :: "exn + chunk list \<Rightarrow> string list" where
  "sentence_texts r =
     (case r of
        Inl e \<Rightarrow> []
      | Inr chunks \<Rightarrow> map text_verbatim (filter (\<lambda>c. chunk_type c = SentenceChunk) chunks))"

definition log_conversation_turn ::
  "env \<Rightarrow> string \<Rightarrow> string \<Rightarrow> string \<Rightarrow> (exn + unit) \<times> (string \<times> string list) list" where
  "log_conversation_turn e user_msg assistant_msg session =
     (case log_turn e session user_msg assistant_msg of
        Inl err \<Rightarrow> (Inl StorageWriteError, [])
      | Inr turn \<Rightarrow>
          (case add_turn e turn of
             Some err \<Rightarrow> (Inl StorageWriteError, [])
           | None \<Rightarrow>
               (let turn_text = user_msg;
                    text_chunks =
                      (case chunk_engine e of
                         Some chunk_turn \<Rightarrow> sentence_texts (chunk_turn turn_text (logged_turn_id turn))
                       | None \<Rightarrow> [turn_text])
                in if text_chunks \<noteq> []
                   then (Inr (), [(logged_turn_id turn, text_chunks)])
                   else (Inr (), []))))"

definition embedded_texts :: "(exn + unit) \<times> (string \<times> string list) list \<Rightarrow> string list" where
  "embedded_texts r = concat (map snd (snd r))"

definition chunker_reads_text_only :: "env \<Rightarrow> bool" where
  \<comment> \<open>Modelled from the spec: the chunk engine is not among the files at hand. Section 4.2:
      the chunker is deterministic and purely local, the chunks hold pieces of the text
      and only their identifiers incorporate the turn id.\<close>
  "chunker_reads_text_only e =
     (case chunk_engine e of
        None \<Rightarrow> True
      | Some chunk_turn \<Rightarrow>
          (\<forall>txt tid tid'. sentence_texts (chunk_turn txt tid) = sentence_texts (chunk_turn txt tid')))"

subsection \<open>\<open>_handle_chat\<close> and \<open>process_user_message\<close>\<close>

definition chunk_query :: "env \<Rightarrow> string \<Rightarrow> exn + chunk list" where
  "chunk_query e user_query =
     (case chunk_engine e of
        None \<Rightarrow> Inr []
      | Some chunk_turn \<Rightarrow> chunk_turn user_query (new_turn_id e))"

definition start_fact_extraction :: "env \<Rightarrow> string \<Rightarrow> chunk list \<Rightarrow> (exn + fact list) option" where
  \<comment> \<open>the task created for \<open>fact_scrubber.extract_and_save\<close>; its outcome is seen when the
      task is awaited\<close>
  "start_fact_extraction e user_query chunks =
     (case fact_scrubber e of
        None \<Rightarrow> None
      | Some extract_and_save \<Rightarrow>
          if chunks \<noteq> [] then Some (extract_and_save (new_turn_id e) user_query chunks) else None)"

definition govern_with_fallback ::
  "env \<Rightarrow> string \<Rightarrow> string \<Rightarrow> exn + (routing_decision \<times> memory list \<times> fact list \<times> dossier list)" where
  "govern_with_fallback e user_query day =
     (case govern e user_query day of
        Inl RetrievalError \<Rightarrow> Inr (default_routing, [], [], [])
      | Inl err \<Rightarrow> Inl err
      | Inr r \<Rightarrow> Inr r)"

definition link_facts :: "env \<Rightarrow> (exn + fact list) option \<Rightarrow> string option \<Rightarrow> exn + unit" where
  "link_facts e fact_extraction_task bid =
     (case fact_extraction_task of
        None \<Rightarrow> Inr ()
      | Some (Inl err) \<Rightarrow> Inl err
      | Some (Inr extracted_facts) \<Rightarrow>
          (case bid of
             None \<Rightarrow> Inr ()
           | Some b \<Rightarrow>
               if extracted_facts \<noteq> [] \<and> b \<noteq> []
               then (case update_facts_block_id e (new_turn_id e) b of
                       Inl err \<Rightarrow> Inl err
                     | Inr updated_count \<Rightarrow> Inr ())
               else Inr ()))"

definition generate_response ::
  "env \<Rightarrow> string option \<Rightarrow> memory list \<Rightarrow> string \<Rightarrow> bool \<Rightarrow> dossier list \<Rightarrow> exn + string" where
  "generate_response e bid filtered_memories user_query is_new dossiers =
     (case get_facts_for_block e bid of
        Inl err \<Rightarrow> Inl err
      | Inr block_facts \<Rightarrow>
          (case hydrate_bridge_block e bid filtered_memories block_facts user_query is_new dossiers of
             Inl err \<Rightarrow> Inl err
           | Inr full_prompt \<Rightarrow> query_external_api e full_prompt))"

definition strip_metadata :: "env \<Rightarrow> string \<Rightarrow> string" where
  \<comment> \<open>the user-facing \<open>response_text\<close>. The header update that follows in the source is
      wrapped in its own \<open>try\<close> and changes neither the response nor the status of a block.\<close>
  "strip_metadata e chat_response =
     (case extract_metadata e chat_response of
        None \<Rightarrow> chat_response
      | Some (metadata_json, stripped) \<Rightarrow> stripped)"

definition success_response :: "string \<Rightarrow> memory list \<Rightarrow> conversation_response" where
  "success_response txt filtered_memories =
     \<lparr>response_text = txt, status = SUCCESS, detected_intent = ''chat'',
      detected_action = ''chat'', contexts_retrieved = length filtered_memories,
      error_message = None\<rparr>"

definition persist_turn ::
  "env \<Rightarrow> string option \<Rightarrow> string \<Rightarrow> string \<Rightarrow> chunk list \<Rightarrow> string \<Rightarrow> memory list \<Rightarrow>
   (exn + conversation_response) \<times> (string \<times> string list) list" where
  \<comment> \<open>"APPEND TURN TO BRIDGE BLOCK" and "LOG AND RETURN": \<open>success\<close> is printed, nothing else
      reads it\<close>
  "persist_turn e bid user_query txt chunks session filtered_memories =
     (case append_turn_to_block e bid
             \<lparr>td_turn_id = new_turn_id e, td_user_message = user_query, td_ai_response = txt,
              td_chunks = chunks\<rparr> of
        Inl err \<Rightarrow> (Inl err, [])
      | Inr success \<Rightarrow>
          (case log_conversation_turn e user_query txt session of
             (Inl err, calls) \<Rightarrow> (Inl err, calls)
           | (Inr u, calls) \<Rightarrow> (Inr (success_response txt filtered_memories), calls)))"

definition chat_body ::
  "env \<Rightarrow> ledger \<Rightarrow> string \<Rightarrow> string \<Rightarrow>
   (exn + conversation_response) \<times> ledger \<times> (string \<times> string list) list" where
  \<comment> \<open>the body of the \<open>try\<close> block of \<open>_handle_chat\<close>\<close>
  "chat_body e l user_query session =
     (case chunk_query e user_query of
        Inl err \<Rightarrow> (Inl err, l, [])
      | Inr chunks \<Rightarrow>
          (let fact_extraction_task = start_fact_extraction e user_query chunks
           in case govern_with_fallback e user_query (current_day e) of
                Inl err \<Rightarrow> (Inl err, l, [])
              | Inr (rd, filtered_memories, facts, dossiers) \<Rightarrow>
                  (let ((bid, is_new), l1) =
                         execute_routing (summarize e) (new_block_id e) rd (current_day e)
                           (nano_keywords e) l
                   in case link_facts e fact_extraction_task bid of
                        Inl err \<Rightarrow> (Inl err, l1, [])
                      | Inr u \<Rightarrow>
                          (case generate_response e bid filtered_memories user_query is_new dossiers of
                             Inl err \<Rightarrow> (Inl err, l1, [])
                           | Inr chat_response \<Rightarrow>
                               (case persist_turn e bid user_query (strip_metadata e chat_response)
                                       chunks session filtered_memories of
                                  (r, calls) \<Rightarrow> (r, l1, calls))))))"

definition partial_response :: conversation_response where
  "partial_response =
     \<lparr>response_text = ''I'm here to chat! (External API not available)'', status = PARTIAL,
      detected_intent = ''chat'', detected_action = ''chat'', contexts_retrieved = 0,
      error_message = None\<rparr>"

definition connection_error_response :: conversation_response where
  "connection_error_response =
     \<lparr>response_text = ''I apologize, but I'm having trouble connecting to my brain right now. Please try again in a moment.'',
      status = ERROR, detected_intent = ''chat'', detected_action = ''chat'',
      contexts_retrieved = 0, error_message = None\<rparr>"

definition fallback_response :: string where
  "fallback_response = ''I'm here to chat, but I'm having trouble connecting to my chat system right now.''"

definition chat_error_response :: "exn \<Rightarrow> conversation_response" where
  "chat_error_response err =
     \<lparr>response_text = fallback_response, status = ERROR, detected_intent = ''chat'',
      detected_action = ''chat'', contexts_retrieved = 0, error_message = Some err\<rparr>"

definition handle_chat ::
  "env \<Rightarrow> ledger \<Rightarrow> string \<Rightarrow> string \<Rightarrow>
   (exn + conversation_response) \<times> ledger \<times> (string \<times> string list) list" where
  "handle_chat e l user_query session =
     (if \<not> api_client_available e then (Inr partial_response, l, [])
      else
        (case chat_body e l user_query session of
           (Inr response, l1, calls) \<Rightarrow> (Inr response, l1, calls)
         | (Inl ApiConnectionError, l1, calls) \<Rightarrow> (Inr connection_error_response, l1, calls)
         | (Inl err, l1, calls) \<Rightarrow>
             (case log_conversation_turn e user_query fallback_response ''default_session'' of
                (Inl err', calls') \<Rightarrow> (Inl err', l1, calls @ calls')
              | (Inr u, calls') \<Rightarrow> (Inr (chat_error_response err), l1, calls @ calls'))))"

definition engine_error_response :: "exn \<Rightarrow> conversation_response" where
  "engine_error_response err =
     \<lparr>response_text = ''I encountered an error processing your request.'', status = ERROR,
      detected_intent = ''error'', detected_action = ''error'', contexts_retrieved = 0,
      error_message = Some err\<rparr>"

definition process_user_message ::
  "env \<Rightarrow> ledger \<Rightarrow> string \<Rightarrow> string \<Rightarrow>
   conversation_response \<times> ledger \<times> (string \<times> string list) list" where
  "process_user_message e l user_query session =
     (case trigger_scribe e of
        Some err \<Rightarrow> (engine_error_response err, l, [])
      | None \<Rightarrow>
          (case handle_chat e l user_query session of
             (Inr response, l1, calls) \<Rightarrow> (response, l1, calls)
           | (Inl err, l1, calls) \<Rightarrow> (engine_error_response err, l1, calls)))"

subsection \<open>Concrete collaborators\<close>

text \<open>
  A run in which every collaborator answers: no chunk engine and no fact scrubber, the
  governor routes to a new topic, the model answers \<open>hello\<close>. What
  \<open>append_turn_to_block\<close> answers is the parameter.
\<close>

definition quiet_env :: "(exn + bool) \<Rightarrow> env" where
  "quiet_env append_result =
     \<lparr>api_client_available = True, trigger_scribe = None, chunk_engine = None,
      fact_scrubber = None, nano_keywords = [], current_day = ''2025-12-15'',
      new_turn_id = ''turn_20251215_120000'', new_block_id = ''bb_2'',
      govern = (\<lambda>q d. Inr (default_routing, [], [], [])),
      summarize = (\<lambda>b. ''''),
      update_facts_block_id = (\<lambda>t b. Inr 0),
      get_facts_for_block = (\<lambda>b. Inr []),
      hydrate_bridge_block = (\<lambda>b ms fs u n ds. Inr u),
      query_external_api = (\<lambda>p. Inr ''hello''),
      extract_metadata = (\<lambda>r. None),
      append_turn_to_block = (\<lambda>b t. append_result),
      log_turn = (\<lambda>s u a. Inr \<lparr>logged_turn_id = ''turn_1''\<rparr>),
      add_turn = (\<lambda>t. None)\<rparr>"



definition retrieval_failing_env :: env where
  \<comment> \<open>as \<open>quiet_env\<close>, with a governor that raises \<open>RetrievalError\<close>\<close>
  "retrieval_failing_env = (quiet_env (Inr True))\<lparr>govern := (\<lambda>q d. Inl RetrievalError)\<rparr>"

definition sentence_env :: env where
  \<comment> \<open>as \<open>quiet_env\<close>, with a chunk engine that makes one sentence chunk of the text, and a
      conversation manager whose turn id depends on the assistant response\<close>
  "sentence_env =
     (quiet_env (Inr True))
       \<lparr>chunk_engine := Some (\<lambda>txt tid.
           Inr [\<lparr>chunk_id = tid @ ''_s0'', chunk_type = SentenceChunk, text_verbatim = txt,
                 parent_chunk_id = None, token_count = int (length txt) div 4\<rparr>]),
        log_turn := (\<lambda>s u a. Inr \<lparr>logged_turn_id = ''turn_'' @ a\<rparr>)\<rparr>"

section \<open>The chunker module (hmlr/memory/embeddings/chunker.py)\<close>

text \<open>
  Name resolution in the module. The global namespace of the module holds what its
  top-level statements bind: \<open>import re\<close>, \<open>from typing import List, Tuple\<close> and
  \<open>def chunk_conversation\<close>. A name that is not a global of the module is looked up in the
  builtins, and raises \<open>NameError\<close> when it is not there either. The builtins are a
  parameter. A value bound to a name is a module, a typing alias, a function, or a class
  with its constructor and its method \<open>chunk_turn\<close>.
\<close>

datatype py_value =
    PyModule string
  | PyTypingAlias string
  | PyFunction string
  | PyChunkerClass "int \<Rightarrow> string \<Rightarrow> string \<Rightarrow> string list"

datatype call_error = NameError string | TypeError

definition chunker_module_globals :: "(string \<times> py_value) list" where
  "chunker_module_globals =
     [(''re'', PyModule ''re''),
      (''List'', PyTypingAlias ''List''),
      (''Tuple'', PyTypingAlias ''Tuple''),
      (''chunk_conversation'', PyFunction ''chunk_conversation'')]"

definition lookup_name ::
  "(string \<times> py_value) list \<Rightarrow> (string \<Rightarrow> py_value option) \<Rightarrow> string \<Rightarrow> call_error + py_value" where
  "lookup_name globals builtins name =
     (case map_of globals name of
        Some v \<Rightarrow> Inr v
      | None \<Rightarrow> (case builtins name of Some v \<Rightarrow> Inr v | None \<Rightarrow> Inl (NameError name)))"

definition chunk_conversation ::
  "(string \<Rightarrow> py_value option) \<Rightarrow> string \<Rightarrow> string \<Rightarrow> int \<Rightarrow> call_error + string list" where
  "chunk_conversation builtins user_message assistant_response max_chunk_size =
     (case lookup_name chunker_module_globals builtins ''SemanticChunker'' of
        Inl err \<Rightarrow> Inl err
      | Inr (PyChunkerClass chunker) \<Rightarrow>
          Inr (chunker max_chunk_size user_message assistant_response)
      | Inr v \<Rightarrow> Inl TypeError)"

definition some_builtins :: "string \<Rightarrow> py_value option" where
  "some_builtins = map_of [(''len'', PyFunction ''len''), (''print'', PyFunction ''print'')]"

section \<open>Token estimation\<close>

text \<open>
  Claim C8, as amended. The approximate token count of a text is the integer quotient
  \<open>len(text) // 4\<close>, that is the floor of \<open>len / 4\<close>, for every text.
\<close>

theorem estimate_tokens_is_floor:
  "estimate_tokens text = \<lfloor>real (length text) / 4\<rfloor>"
proof -
  have "\<lfloor>real_of_int (int (length text)) / real_of_int 4\<rfloor> = int (length text) div 4"
    by (rule floor_divide_of_int_eq)
  then show ?thesis
    by (simp add: estimate_tokens_def)
qed

text \<open>
  Claim C8 as stated (the count is the ceiling of \<open>len / 4\<close>) fails on the one-character
  text: the code counts 0 tokens, the ceiling is 1.
\<close>

theorem estimate_tokens_ceiling_counterexample:
  "estimate_tokens ''a'' \<noteq> \<lceil>real (length ''a'') / 4\<rceil>"
proof -
  have "\<lceil>(1::real) / 4\<rceil> = 1"
    by (simp add: ceiling_eq_iff)
  then show ?thesis
    by (simp add: estimate_tokens_def)
qed

section \<open>Searching backwards for a character\<close>

lemma rfind_between_none:
  "(\<And>k. lo \<le> k \<Longrightarrow> k < hi \<Longrightarrow> txt ! k \<noteq> c) \<Longrightarrow> rfind_between txt c lo hi = - 1"
proof (induction hi)
  case 0
  show ?case by simp
next
  case (Suc j)
  show ?case
  proof (cases "Suc j \<le> lo")
    case True
    then show ?thesis by simp
  next
    case False
    then have "txt ! j \<noteq> c" using Suc.prems [of j] by simp
    moreover have "rfind_between txt c lo j = - 1"
      using Suc.IH Suc.prems by simp
    ultimately show ?thesis by simp
  qed
qed

lemma rfind_between_found:
  "lo \<le> j \<Longrightarrow> j < hi \<Longrightarrow> txt ! j = c \<Longrightarrow> (\<And>k. j < k \<Longrightarrow> k < hi \<Longrightarrow> txt ! k \<noteq> c)
   \<Longrightarrow> rfind_between txt c lo hi = int j"
proof (induction hi)
  case 0
  then show ?case by simp
next
  case (Suc h)
  show ?case
  proof (cases "j = h")
    case True
    with Suc.prems show ?thesis by simp
  next
    case False
    with Suc.prems have jh: "j < h" by simp
    then have "txt ! h \<noteq> c" using Suc.prems(4) [of h] by simp
    moreover have "rfind_between txt c lo h = int j"
      using Suc.IH Suc.prems jh by simp
    moreover have "\<not> Suc h \<le> lo" using Suc.prems jh by simp
    ultimately show ?thesis by simp
  qed
qed

lemma rfind_between_range:
  "rfind_between txt c lo hi = - 1 \<or>
   (int lo \<le> rfind_between txt c lo hi \<and> rfind_between txt c lo hi < int hi
    \<and> txt ! nat (rfind_between txt c lo hi) = c)"
  by (induction hi) auto

lemma length_slip_text: "length slip_text = 40004"
  by (simp add: slip_text_def)

lemma slip_text_nth:
  "k < 40004 \<Longrightarrow> slip_text ! k = (if k = 39500 then CHR ''.'' else CHR ''a'')"
  by (auto simp add: slip_text_def nth_append nth_Cons')

lemma slip_rfind_period: "rfind slip_text (CHR ''.'') 39500 40000 = 39500"
proof -
  have "rfind_between slip_text (CHR ''.'') 39500 40000 = int 39500"
    by (rule rfind_between_found) (simp_all add: slip_text_nth)
  then show ?thesis
    by (simp add: rfind_def py_index_def length_slip_text)
qed

lemma slip_rfind_other:
  "c \<noteq> CHR ''.'' \<Longrightarrow> c \<noteq> CHR ''a'' \<Longrightarrow> rfind slip_text c 39500 40000 = - 1"
proof -
  assume c: "c \<noteq> CHR ''.''" "c \<noteq> CHR ''a''"
  have "rfind_between slip_text c 39500 40000 = - 1"
    by (rule rfind_between_none) (use c in \<open>auto simp add: slip_text_nth\<close>)
  then show ?thesis
    by (simp add: rfind_def py_index_def length_slip_text)
qed

lemma slip_cut_first: "cut_point slip_text 0 40000 = 40000"
  by (simp add: cut_point_def length_slip_text slip_rfind_period slip_rfind_other)

lemma slip_cut_second: "cut_point slip_text 38000 40000 = 40004"
  by (simp add: cut_point_def length_slip_text)

lemma slip_loop:
  "chunk_loop slip_text 40000 2000 0 0 [] =
     Some [\<lparr>chunk_text = py_slice slip_text 0 40000, start_char = 0, end_char = 40000,
             chunk_index = 0, total_chunks = None\<rparr>,
           \<lparr>chunk_text = py_slice slip_text 38000 40004, start_char = 38000, end_char = 40004,
             chunk_index = 1, total_chunks = None\<rparr>]"
  apply (subst chunk_loop.simps)
  apply (simp add: slip_cut_first length_slip_text)
  apply (subst chunk_loop.simps)
  apply (simp add: slip_cut_second length_slip_text)
  done

lemma slip_slice_first:
  "py_slice slip_text 0 40000 = replicate 39500 (CHR ''a'') @ CHR ''.'' # replicate 499 (CHR ''a'')"
  by (simp add: py_slice_def py_index_def slip_text_def take_Cons')

lemma slip_slice_second:
  "py_slice slip_text 38000 40004 = replicate 1500 (CHR ''a'') @ CHR ''.'' # replicate 503 (CHR ''a'')"
  by (simp add: py_slice_def py_index_def slip_text_def)

lemma slip_estimate: "estimate_tokens slip_text = 10001"
  by (simp add: estimate_tokens_def length_slip_text)

text \<open>
  Claim C3, at the input where the code leaves it. The text \<open>slip_text\<close> has 40004 characters
  (10001 estimated tokens) and a full stop at index 39500, which is one of the 500
  characters before the target cut 40000. The code finds it (\<open>rfind\<close> answers 39500) and
  drops it, because it tests \<open>boundary > search_start\<close>: the first window ends at 40000, in
  the middle of a run of letters, and not at 39501 after the full stop.
\<close>

theorem chunk_cut_ignores_boundary_at_lookback_edge:
  "slip_text ! 39500 = CHR ''.'' \<and>
   rfind slip_text (CHR ''.'') (40000 - 500) 40000 = 39500 \<and>
   chunk_large_text_for_extraction slip_text 10000 500 400 =
     Some [\<lparr>chunk_text = replicate 39500 (CHR ''a'') @ CHR ''.'' # replicate 499 (CHR ''a''),
             start_char = 0, end_char = 40000, chunk_index = 0, total_chunks = Some 2\<rparr>,
           \<lparr>chunk_text = replicate 1500 (CHR ''a'') @ CHR ''.'' # replicate 503 (CHR ''a''),
             start_char = 38000, end_char = 40004, chunk_index = 1, total_chunks = Some 2\<rparr>]"
proof -
  have "slip_text ! 39500 = CHR ''.''"
    by (simp add: slip_text_nth)
  moreover have "rfind slip_text (CHR ''.'') (40000 - 500) 40000 = 39500"
    using slip_rfind_period by simp
  moreover have "chunk_loop slip_text (10000 * 4) (500 * 4) 0 0 [] =
     Some [\<lparr>chunk_text = py_slice slip_text 0 40000, start_char = 0, end_char = 40000,
             chunk_index = 0, total_chunks = None\<rparr>,
           \<lparr>chunk_text = py_slice slip_text 38000 40004, start_char = 38000, end_char = 40004,
             chunk_index = 1, total_chunks = None\<rparr>]"
    using slip_loop by simp
  ultimately show ?thesis
    by (simp add: chunk_large_text_for_extraction_def slip_estimate
        slip_slice_first slip_slice_second)
qed

section \<open>The windows made with the default sizes\<close>

text \<open>
  With the default sizes the loop terminates on every text, every window holds at most
  10000 estimated tokens, a window starts 2000 characters before the end of the one
  before it, the windows cover the text, and a text of more than 10000 estimated tokens
  and at most 77502 characters (a document of about 15000 tokens has 60000) yields two
  windows.
\<close>

lemma py_index_in_range: "0 \<le> i \<Longrightarrow> i \<le> int n \<Longrightarrow> py_index n i = nat i"
  by (simp add: py_index_def)

lemma rfind_range:
  assumes "0 \<le> s" "s \<le> e" "e \<le> int (length txt)"
  shows "rfind txt c s e = - 1 \<or> (s \<le> rfind txt c s e \<and> rfind txt c s e < e)"
proof -
  have "py_index (length txt) s = nat s" "py_index (length txt) e = nat e"
    using assms by (simp_all add: py_index_in_range)
  then show ?thesis
    using rfind_between_range [of "txt" c "nat s" "nat e"] assms
    by (auto simp add: rfind_def)
qed

lemma cut_point_at_end:
  "int (length txt) \<le> start_c + size_c \<Longrightarrow> cut_point txt start_c size_c = int (length txt)"
  by (simp add: cut_point_def)

lemma cut_point_interior:
  assumes "0 \<le> start_c" "start_c + 40000 < int (length txt)"
  shows "start_c + 39502 \<le> cut_point txt start_c 40000 \<and> cut_point txt start_c 40000 \<le> start_c + 40000"
proof -
  define t where "t = start_c + 40000"
  define ss where "ss = t - 500"
  have r: "rfind txt c ss t = - 1 \<or> (ss \<le> rfind txt c ss t \<and> rfind txt c ss t < t)" for c
    by (rule rfind_range) (use assms in \<open>simp_all add: ss_def t_def\<close>)
  define b where "b = max (max (rfind txt (CHR ''.'') ss t) (rfind txt (CHR ''!'') ss t)) (rfind txt (CHR ''?'') ss t)"
  have bt: "b < t"
    using r [of "CHR ''.''"] r [of "CHR ''!''"] r [of "CHR ''?''"] assms(1)
    by (auto simp add: b_def t_def)
  have cp: "cut_point txt start_c 40000 = (if b > ss then b + 1 else t)"
    using assms by (simp add: cut_point_def Let_def b_def ss_def t_def max_def)
  show ?thesis
    using bt by (auto simp add: cp ss_def t_def)
qed

lemma chunk_loop_default:
  "0 \<le> s \<Longrightarrow> s < int (length txt) \<Longrightarrow>
   \<exists>ws. chunk_loop txt 40000 2000 s i acc = Some (acc @ ws) \<and> windows_from txt s i ws"
proof (induction "nat (int (length txt) - s)" arbitrary: s i acc rule: less_induct)
  case less
  define e where "e = cut_point txt s 40000"
  define w where "w = \<lparr>chunk_text = py_slice txt s e, start_char = s, end_char = e,
                        chunk_index = i, total_chunks = None\<rparr>"
  show ?case
  proof (cases "int (length txt) \<le> s + 40000")
    case True
    then have e: "e = int (length txt)"
      unfolding e_def by (rule cut_point_at_end)
    have "chunk_loop txt 40000 2000 s i acc = Some (acc @ [w])"
      by (subst chunk_loop.simps) (use less.prems e in \<open>simp add: Let_def w_def e_def\<close>)
    moreover have "windows_from txt s i [w]"
      using e by (simp add: w_def e_def)
    ultimately show ?thesis by blast
  next
    case False
    then have b: "s + 39502 \<le> e" "e \<le> s + 40000"
      using cut_point_interior [of s "txt"] less.prems(1) by (simp_all add: e_def)
    with False have lt: "e < int (length txt)" by simp
    have step: "chunk_loop txt 40000 2000 s i acc = chunk_loop txt 40000 2000 (e - 2000) (i + 1) (acc @ [w])"
      by (subst chunk_loop.simps) (use less.prems lt in \<open>simp add: Let_def w_def e_def\<close>)
    have "nat (int (length txt) - (e - 2000)) < nat (int (length txt) - s)"
      using b lt by simp
    moreover have "0 \<le> e - 2000" "e - 2000 < int (length txt)"
      using b lt less.prems(1) by simp_all
    ultimately obtain ws where
      ws: "chunk_loop txt 40000 2000 (e - 2000) (i + 1) (acc @ [w]) = Some ((acc @ [w]) @ ws)"
        "windows_from txt (e - 2000) (i + 1) ws"
      using less.hyps [of "e - 2000" "i + 1" "acc @ [w]"] by blast
    have "chunk_loop txt 40000 2000 s i acc = Some (acc @ (w # ws))"
      using step ws(1) by simp
    moreover have "windows_from txt s i (w # ws)"
      using ws(2) lt by (simp add: w_def e_def)
    ultimately show ?thesis by blast
  qed
qed

lemma length_py_slice:
  "0 \<le> a \<Longrightarrow> a \<le> b \<Longrightarrow> b \<le> int (length xs) \<Longrightarrow> int (length (py_slice xs a b)) = b - a"
  by (simp add: py_slice_def py_index_in_range)

lemma window_ok_tokens: "window_ok txt w \<Longrightarrow> estimate_tokens (chunk_text w) \<le> 10000"
proof -
  assume ok: "window_ok txt w"
  then have "int (length (chunk_text w)) = end_char w - start_char w"
    by (simp add: window_ok_def length_py_slice)
  moreover have "end_char w - start_char w \<le> 40000"
    using ok by (simp add: window_ok_def)
  ultimately have "int (length (chunk_text w)) \<le> 40000" by simp
  then show ?thesis
    by (simp add: estimate_tokens_def)
qed

lemma cut_point_window:
  assumes "0 \<le> s" "s < int (length txt)"
  shows "s < cut_point txt s 40000 \<and> cut_point txt s 40000 \<le> int (length txt) \<and>
         cut_point txt s 40000 - s \<le> 40000"
proof (cases "int (length txt) \<le> s + 40000")
  case True
  then have "cut_point txt s 40000 = int (length txt)" by (rule cut_point_at_end)
  with assms True show ?thesis by simp
next
  case False
  with cut_point_interior [of s "txt"] assms show ?thesis by simp
qed

lemma windows_from_props:
  "0 \<le> s \<Longrightarrow> s < int (length txt) \<Longrightarrow> windows_from txt s i ws \<Longrightarrow>
   ws \<noteq> [] \<and> start_char (hd ws) = s \<and> end_char (last ws) = int (length txt) \<and>
   (\<forall>w \<in> set ws. window_ok txt w) \<and>
   successively (\<lambda>a b. start_char b = end_char a - 2000) ws"
proof (induction ws arbitrary: s i)
  case Nil
  then show ?case by simp
next
  case (Cons w ws)
  define e where "e = cut_point txt s 40000"
  have w: "w = \<lparr>chunk_text = py_slice txt s e, start_char = s, end_char = e,
                 chunk_index = i, total_chunks = None\<rparr>"
    using Cons.prems(3) by (simp add: e_def)
  have cw: "s < e" "e \<le> int (length txt)" "e - s \<le> 40000"
    using cut_point_window [OF Cons.prems(1,2)] by (simp_all add: e_def)
  have ok: "window_ok txt w"
    using cw Cons.prems(1) by (simp add: window_ok_def w)
  show ?case
  proof (cases "int (length txt) \<le> e")
    case True
    then have "ws = []" using Cons.prems(3) by (simp add: e_def)
    with True cw ok show ?thesis by (simp add: w)
  next
    case False
    then have rest: "windows_from txt (e - 2000) (i + 1) ws"
      using Cons.prems(3) by (simp add: e_def)
    have far: "\<not> int (length txt) \<le> s + 40000"
      using False cut_point_at_end [of "txt" s 40000] by (auto simp add: e_def)
    then have "s + 39502 \<le> e"
      using cut_point_interior [of s "txt"] Cons.prems(1) by (simp add: e_def)
    then have "0 \<le> e - 2000" "e - 2000 < int (length txt)"
      using Cons.prems(1) False by simp_all
    from Cons.IH [OF this rest] have ih:
      "ws \<noteq> []" "start_char (hd ws) = e - 2000" "end_char (last ws) = int (length txt)"
      "\<forall>w \<in> set ws. window_ok txt w"
      "successively (\<lambda>a b. start_char b = end_char a - 2000) ws"
      by simp_all
    have "successively (\<lambda>a b. start_char b = end_char a - 2000) (w # ws)"
      using ih(1,2,5) by (cases ws) (simp_all add: w)
    with ih ok show ?thesis by (simp add: w)
  qed
qed

lemma windows_from_two:
  assumes "40000 < int (length txt)" "int (length txt) \<le> 77502" "windows_from txt 0 i ws"
  shows "length ws = 2"
proof -
  define e where "e = cut_point txt 0 40000"
  have b: "39502 \<le> e" "e \<le> 40000"
    using cut_point_interior [of 0 "txt"] assms(1) by (simp_all add: e_def)
  obtain w rest where ws: "ws = w # rest"
    using assms(3) by (cases ws) auto
  have r: "windows_from txt (e - 2000) (i + 1) rest"
    using assms(1,3) b by (simp add: ws e_def)
  obtain w2 rest2 where rest: "rest = w2 # rest2"
    using r by (cases rest) auto
  have "cut_point txt (e - 2000) 40000 = int (length txt)"
    by (rule cut_point_at_end) (use b assms(2) in simp)
  then have "rest2 = []"
    using r by (simp add: rest)
  then show ?thesis by (simp add: ws rest)
qed

theorem chunk_windows_with_default_sizes:
  assumes "10000 < estimate_tokens txt"
  shows "\<exists>ws. chunk_large_text_for_extraction txt 10000 500 400 = Some ws \<and> ws \<noteq> [] \<and>
           start_char (hd ws) = 0 \<and> end_char (last ws) = int (length txt) \<and>
           (\<forall>w \<in> set ws. window_ok txt w \<and> estimate_tokens (chunk_text w) \<le> 10000) \<and>
           successively (\<lambda>a b. start_char b = end_char a - 2000) ws \<and>
           (int (length txt) \<le> 77502 \<longrightarrow> length ws = 2)"
proof -
  have len: "40004 \<le> int (length txt)"
    using assms by (simp add: estimate_tokens_def)
  then have pos: "0 < int (length txt)" by auto
  from chunk_loop_default [of 0 "txt" 0 "[]"] pos
  obtain ws0 where l: "chunk_loop txt 40000 2000 0 0 [] = Some ws0" and wf: "windows_from txt 0 0 ws0"
    by force
  define ws where "ws = map (\<lambda>c. c\<lparr>total_chunks := Some (int (length ws0))\<rparr>) ws0"
  have res: "chunk_large_text_for_extraction txt 10000 500 400 = Some ws"
    using assms l by (simp add: chunk_large_text_for_extraction_def ws_def)
  from windows_from_props [OF _ pos wf] have p:
    "ws0 \<noteq> []" "start_char (hd ws0) = 0" "end_char (last ws0) = int (length txt)"
    "\<forall>w \<in> set ws0. window_ok txt w"
    "successively (\<lambda>a b. start_char b = end_char a - 2000) ws0"
    by simp_all
  have ne: "ws \<noteq> []" using p(1) by (simp add: ws_def)
  have h: "start_char (hd ws) = 0"
    using p(1,2) by (simp add: ws_def hd_map)
  have la: "end_char (last ws) = int (length txt)"
    using p(1,3) by (simp add: ws_def last_map)
  have ok: "\<forall>w \<in> set ws. window_ok txt w \<and> estimate_tokens (chunk_text w) \<le> 10000"
  proof
    fix w assume "w \<in> set ws"
    then obtain c where c: "c \<in> set ws0" "w = c\<lparr>total_chunks := Some (int (length ws0))\<rparr>"
      by (auto simp add: ws_def)
    with p(4) have "window_ok txt c" by simp
    then have "window_ok txt w" by (simp add: window_ok_def c(2))
    then show "window_ok txt w \<and> estimate_tokens (chunk_text w) \<le> 10000"
      using window_ok_tokens by simp
  qed
  have su: "successively (\<lambda>a b. start_char b = end_char a - 2000) ws"
    using p(5) by (simp add: ws_def successively_map)
  have two: "int (length txt) \<le> 77502 \<longrightarrow> length ws = 2"
    using windows_from_two [OF _ _ wf] len by (simp add: ws_def)
  from res ne h la ok su two show ?thesis by blast
qed

lemma chunk_small_text_is_one_window:
  "estimate_tokens txt \<le> 10000 \<Longrightarrow>
   chunk_large_text_for_extraction txt chunk_size_tokens overlap_tokens heuristic_tokens =
     Some [\<lparr>chunk_text = txt, start_char = 0, end_char = int (length txt), chunk_index = 0,
            total_chunks = Some 1\<rparr>]"
  by (simp add: chunk_large_text_for_extraction_def)

section \<open>The embedding table holds one row per fact\<close>

lemma insert_or_replace_distinct:
  "distinct (map fact_id table) \<Longrightarrow> distinct (map fact_id (insert_or_replace row table))"
  by (auto simp add: insert_or_replace_def distinct_map_filter)

lemma apply_storage_op_distinct:
  "distinct (map fact_id table) \<Longrightarrow> distinct (map fact_id (apply_storage_op encode table op))"
  by (cases op)
     (auto simp add: save_fact_embedding_def delete_dossier_embeddings_def
        insert_or_replace_distinct distinct_map_filter split: option.splits)

lemma run_storage_ops_distinct:
  "distinct (map fact_id table) \<Longrightarrow> distinct (map fact_id (run_storage_ops encode ops table))"
  unfolding run_storage_ops_def
  by (induction ops arbitrary: table) (simp_all add: apply_storage_op_distinct)

lemma length_filter_distinct_key:
  "distinct (map f xs) \<Longrightarrow> length (filter (\<lambda>r. f r = k) xs) \<le> 1"
  by (induction xs) (auto simp add: filter_empty_conv image_iff)

lemma length_replace_existing:
  assumes "distinct (map fact_id table)" and "fid \<in> fact_id ` set table"
  shows "length (filter (\<lambda>r. fact_id r \<noteq> fid) table @ [row]) = length table"
proof -
  have "length (filter (\<lambda>r. fact_id r = fid) table) \<le> 1"
    using assms(1) by (rule length_filter_distinct_key)
  moreover have "filter (\<lambda>r. fact_id r = fid) table \<noteq> []"
    using assms(2) by (auto simp add: filter_empty_conv)
  ultimately have one: "length (filter (\<lambda>r. fact_id r = fid) table) = 1"
    by (cases "filter (\<lambda>r. fact_id r = fid) table") auto
  have "length table = length (filter (\<lambda>r. fact_id r = fid) table)
      + length (filter (\<lambda>r. \<not> fact_id r = fid) table)"
    by (rule sum_length_filter_compl [symmetric])
  with one show ?thesis by simp
qed

lemma save_existing_overwrites:
  assumes "distinct (map fact_id table)" and "fid \<in> fact_id ` set table"
    and "save_fact_embedding encode db_raises now table fid did fact_text = (True, table')"
  shows "length table' = length table \<and>
         (\<exists>emb. encode fact_text = Some emb \<and>
            filter (\<lambda>r. fact_id r = fid) table' =
              [\<lparr>fact_id = fid, dossier_id = did, embedding = emb, created_at = now\<rparr>])"
proof -
  from assms(3) obtain emb where emb: "encode fact_text = Some emb"
    and t': "table' = filter (\<lambda>r. fact_id r \<noteq> fid) table
                @ [\<lparr>fact_id = fid, dossier_id = did, embedding = emb, created_at = now\<rparr>]"
    by (auto simp add: save_fact_embedding_def insert_or_replace_def
        split: option.splits if_splits)
  have "length table' = length table"
    unfolding t' using assms(1,2) by (rule length_replace_existing)
  moreover have "filter (\<lambda>r. fact_id r = fid) table' =
      [\<lparr>fact_id = fid, dossier_id = did, embedding = emb, created_at = now\<rparr>]"
    by (simp add: t' filter_empty_conv)
  ultimately show ?thesis using emb by simp
qed

lemma delete_removes_dossier:
  assumes "delete_dossier_embeddings db_raises table did = (True, table')"
  shows "table' = filter (\<lambda>r. dossier_id r \<noteq> did) table"
  using assms by (auto simp add: delete_dossier_embeddings_def split: if_splits)

text \<open>
  Claim C7. Start from a table with one row per \<open>fact_id\<close> (the empty table that
  \<open>_initialize_table\<close> creates is one) and run any sequence of \<open>save_fact_embedding\<close> and
  \<open>delete_dossier_embeddings\<close> calls, failing or not. The table reached still has at most
  one row per \<open>fact_id\<close>. A successful \<open>save_fact_embedding\<close> for a \<open>fact_id\<close> that is
  stored leaves the number of rows unchanged and the only row with that \<open>fact_id\<close> is the
  new one. A successful \<open>delete_dossier_embeddings\<close> leaves no row with the given
  \<open>dossier_id\<close> and keeps every other row.
\<close>

theorem dossier_fact_embeddings_one_row_per_fact:
  assumes "distinct (map fact_id table0)"
  shows "distinct (map fact_id (run_storage_ops encode ops table0)) \<and>
    (fid \<in> fact_id ` set (run_storage_ops encode ops table0) \<and>
     save_fact_embedding encode db_raises now (run_storage_ops encode ops table0)
       fid did fact_text = (True, table')
     \<longrightarrow> length table' = length (run_storage_ops encode ops table0) \<and>
         (\<exists>emb. encode fact_text = Some emb \<and>
            filter (\<lambda>r. fact_id r = fid) table' =
              [\<lparr>fact_id = fid, dossier_id = did, embedding = emb, created_at = now\<rparr>])) \<and>
    (delete_dossier_embeddings db_raises' (run_storage_ops encode ops table0) did' = (True, table'')
     \<longrightarrow> (\<forall>r \<in> set table''. dossier_id r \<noteq> did') \<and>
         (\<forall>r \<in> set (run_storage_ops encode ops table0). dossier_id r \<noteq> did' \<longrightarrow> r \<in> set table''))"
proof -
  define T where "T = run_storage_ops encode ops table0"
  have d: "distinct (map fact_id T)"
    unfolding T_def using assms by (rule run_storage_ops_distinct)
  have s: "length table' = length T \<and>
           (\<exists>emb. encode fact_text = Some emb \<and>
              filter (\<lambda>r. fact_id r = fid) table' =
                [\<lparr>fact_id = fid, dossier_id = did, embedding = emb, created_at = now\<rparr>])"
    if "fid \<in> fact_id ` set T"
      and "save_fact_embedding encode db_raises now T fid did fact_text = (True, table')"
    using d that by (rule save_existing_overwrites)
  have e: "(\<forall>r \<in> set table''. dossier_id r \<noteq> did') \<and>
           (\<forall>r \<in> set T. dossier_id r \<noteq> did' \<longrightarrow> r \<in> set table'')"
    if "delete_dossier_embeddings db_raises' T did' = (True, table'')"
    using delete_removes_dossier [OF that] by simp
  from d s e show ?thesis
    unfolding T_def by blast
qed

text \<open>
  The theorem at work: \<open>fact_001\<close> is stored for \<open>dos_diet\<close>; saving it again for
  \<open>dos_tech\<close> leaves one row, the new one, and deleting the embeddings of \<open>dos_diet\<close>
  from the table with both a diet and a tech fact leaves the tech fact.
\<close>

theorem dossier_fact_embeddings_one_row_per_fact_witness:
  "distinct (map fact_id ([] :: string embedding_table)) \<and>
   ''fact_001'' \<in> fact_id ` set (run_storage_ops Some
      [SaveFactEmbedding ''fact_001'' ''dos_diet'' ''vegetarian'' ''t1'' False,
       SaveFactEmbedding ''fact_004'' ''dos_tech'' ''python'' ''t2'' False] []) \<and>
   save_fact_embedding Some False ''t3'' (run_storage_ops Some
      [SaveFactEmbedding ''fact_001'' ''dos_diet'' ''vegetarian'' ''t1'' False,
       SaveFactEmbedding ''fact_004'' ''dos_tech'' ''python'' ''t2'' False] [])
      ''fact_001'' ''dos_tech'' ''vegan'' =
     (True,
      [\<lparr>fact_id = ''fact_004'', dossier_id = ''dos_tech'', embedding = ''python'', created_at = ''t2''\<rparr>,
       \<lparr>fact_id = ''fact_001'', dossier_id = ''dos_tech'', embedding = ''vegan'', created_at = ''t3''\<rparr>]) \<and>
   delete_dossier_embeddings False (run_storage_ops Some
      [SaveFactEmbedding ''fact_001'' ''dos_diet'' ''vegetarian'' ''t1'' False,
       SaveFactEmbedding ''fact_004'' ''dos_tech'' ''python'' ''t2'' False] []) ''dos_diet'' =
     (True,
      [\<lparr>fact_id = ''fact_004'', dossier_id = ''dos_tech'', embedding = ''python'', created_at = ''t2''\<rparr>]) \<and>
   distinct (map fact_id (run_storage_ops Some
      [SaveFactEmbedding ''fact_001'' ''dos_diet'' ''vegetarian'' ''t1'' False,
       SaveFactEmbedding ''fact_004'' ''dos_tech'' ''python'' ''t2'' False] []))"
  using dossier_fact_embeddings_one_row_per_fact [of "[] :: string embedding_table" Some
      "[SaveFactEmbedding ''fact_001'' ''dos_diet'' ''vegetarian'' ''t1'' False,
        SaveFactEmbedding ''fact_004'' ''dos_tech'' ''python'' ''t2'' False]"
      "''fact_001''" False "''t3''" "''dos_tech''" "''vegan''"
      "[\<lparr>fact_id = ''fact_004'', dossier_id = ''dos_tech'', embedding = ''python'', created_at = ''t2''\<rparr>,
        \<lparr>fact_id = ''fact_001'', dossier_id = ''dos_tech'', embedding = ''vegan'', created_at = ''t3''\<rparr>]"
      False "''dos_diet''"
      "[\<lparr>fact_id = ''fact_004'', dossier_id = ''dos_tech'', embedding = ''python'', created_at = ''t2''\<rparr>]"]
  by (simp add: run_storage_ops_def save_fact_embedding_def insert_or_replace_def
      delete_dossier_embeddings_def)

section \<open>Searching the embedding table\<close>

lemma scan_rows_threshold:
  "scan_rows cosine q threshold table = Some results \<Longrightarrow>
   \<forall>m \<in> set results. float_ge (Fin (match_score m)) threshold"
proof (induction table arbitrary: results)
  case Nil
  then show ?case by simp
next
  case (Cons r rs)
  then show ?case
    by (auto simp add: match_score_def split: option.splits pyfloat.splits if_splits)
qed

lemma set_sort_reverse: "set (sort_reverse key xs) = set xs"
  by (simp add: sort_reverse_def)

lemma length_sort_reverse: "length (sort_reverse key xs) = length xs"
  by (simp add: sort_reverse_def)

lemma sort_reverse_descending:
  "sorted_wrt (\<lambda>a b. key b \<le> key a) (sort_reverse key xs)"
proof -
  have "sorted (map key (sort_key key (rev xs)))"
    by (rule sorted_sort_key)
  then have "sorted_wrt (\<lambda>a b. key a \<le> key b) (sort_key key (rev xs))"
    by (simp add: sorted_map)
  then show ?thesis
    by (simp add: sort_reverse_def sorted_wrt_rev)
qed

lemma sort_reverse_stable:
  "filter (\<lambda>x. key x = k) (sort_reverse key xs) = filter (\<lambda>x. key x = k) xs"
proof -
  have "filter (\<lambda>x. key x = k) (sort_reverse key xs)
      = rev (filter (\<lambda>x. key x = k) (sort_key key (rev xs)))"
    by (simp add: sort_reverse_def rev_filter)
  also have "\<dots> = rev (filter (\<lambda>x. key x = k) (rev xs))"
    by (simp add: sort_key_stable)
  also have "\<dots> = filter (\<lambda>x. key x = k) xs"
    by (simp add: rev_filter)
  finally show ?thesis .
qed

lemma py_index_nonneg: "0 \<le> k \<Longrightarrow> int (py_index n k) \<le> k"
  by (simp add: py_index_def)

lemma scan_rows_stored_order:
  "scan_rows cosine q threshold table = Some results \<Longrightarrow>
   map fst results =
     map fact_id (filter (\<lambda>r. \<exists>s. cosine q (embedding r) = Some (Fin s) \<and> float_ge (Fin s) threshold) table)"
proof (induction table arbitrary: results)
  case Nil
  then show ?case by simp
next
  case (Cons r rs)
  then show ?case
    by (auto split: option.splits pyfloat.splits if_splits)
qed

text \<open>
  Claim C4, as amended. For every table, query and threshold and every \<open>top_k \<ge> 0\<close>, the
  list that \<open>search_similar_facts\<close> returns holds only scores that are at least the
  threshold, is in non-increasing order of score, lists the entries of any one score in
  the order in which their rows are stored (they are an initial segment of the stored
  rows of that score), and has at most \<open>top_k\<close> entries.
\<close>

theorem search_similar_facts_sorted_filtered_bounded:
  "0 \<le> top_k \<Longrightarrow>
   (\<forall>m \<in> set (search_similar_facts encode cosine db_raises table query top_k threshold).
      float_ge (Fin (match_score m)) threshold) \<and>
   sorted_wrt (\<lambda>a b. match_score b \<le> match_score a)
     (search_similar_facts encode cosine db_raises table query top_k threshold) \<and>
   prefix (filter (\<lambda>m. match_score m = s)
             (search_similar_facts encode cosine db_raises table query top_k threshold))
          (filter (\<lambda>m. match_score m = s) (stored_matches encode cosine table query threshold)) \<and>
   int (length (search_similar_facts encode cosine db_raises table query top_k threshold)) \<le> top_k"
proof -
  assume k: "0 \<le> top_k"
  show ?thesis
  proof (cases "\<exists>q ms. encode query = Some q \<and> \<not> db_raises
                  \<and> scan_rows cosine q threshold table = Some ms")
    case False
    then have "search_similar_facts encode cosine db_raises table query top_k threshold = []"
      by (auto simp add: search_similar_facts_def split: option.splits)
    with k show ?thesis by simp
  next
    case True
    then obtain q ms where q: "encode query = Some q" and db: "\<not> db_raises"
      and ms: "scan_rows cosine q threshold table = Some ms" by blast
    define srt where "srt = sort_reverse match_score ms"
    define n where "n = py_index (length srt) top_k"
    have res: "search_similar_facts encode cosine db_raises table query top_k threshold = take n srt"
      by (simp add: search_similar_facts_def q db ms srt_def n_def Let_def)
    have st: "stored_matches encode cosine table query threshold = ms"
      by (simp add: stored_matches_def q ms)
    have a: "\<forall>m \<in> set (take n srt). float_ge (Fin (match_score m)) threshold"
      using scan_rows_threshold [OF ms] set_take_subset [of n srt]
      by (auto simp add: srt_def set_sort_reverse)
    have b: "sorted_wrt (\<lambda>a b. match_score b \<le> match_score a) (take n srt)"
      unfolding srt_def by (rule sorted_wrt_take) (rule sort_reverse_descending)
    have "prefix (take n srt) srt"
      by (rule take_is_prefix)
    then have "prefix (filter (\<lambda>m. match_score m = s) (take n srt))
                      (filter (\<lambda>m. match_score m = s) srt)"
      by (rule filter_mono_prefix)
    then have c: "prefix (filter (\<lambda>m. match_score m = s) (take n srt))
                         (filter (\<lambda>m. match_score m = s) ms)"
      by (simp add: srt_def sort_reverse_stable)
    have "int (length (take n srt)) \<le> int n" by simp
    also have "\<dots> \<le> top_k" unfolding n_def using k by (rule py_index_nonneg)
    finally have d: "int (length (take n srt)) \<le> top_k" .
    from a b c d show ?thesis by (simp add: res st)
  qed
qed

text \<open>
  The theorem at work on two stored facts of equal similarity and \<open>top_k = 1\<close>: the older
  fact is the one returned.
\<close>

theorem search_similar_facts_sorted_filtered_bounded_witness:
  "(0::int) \<le> 1 \<and>
   search_similar_facts Some unit_cosine False two_fact_table ''diet'' 1 (Fin 0.4) =
     [(''fact_001'', ''dos_diet'', 1)] \<and>
   int (length (search_similar_facts Some unit_cosine False two_fact_table ''diet'' 1 (Fin 0.4))) \<le> 1"
  using search_similar_facts_sorted_filtered_bounded
    [of 1 Some unit_cosine False two_fact_table "''diet''" "Fin 0.4" 1]
  by (simp add: search_similar_facts_def two_fact_table_def unit_cosine_def sort_reverse_def
      match_score_def py_index_def)

text \<open>
  Claim C4 as stated (for every \<open>top_k\<close>, at most \<open>top_k\<close> entries) fails for a negative
  \<open>top_k\<close>: \<open>results[:-1]\<close> drops the last entry and keeps the rest, here one entry.
\<close>

theorem search_similar_facts_negative_top_k_counterexample:
  "\<not> int (length (search_similar_facts Some unit_cosine False two_fact_table ''diet'' (- 1) (Fin 0.4)))
       \<le> - 1"
  by (simp add: search_similar_facts_def two_fact_table_def unit_cosine_def sort_reverse_def
      match_score_def py_index_def)

section \<open>Loading the sliding window\<close>

lemma load_window_missing: "load_window fromisoformat Missing = Inr []"
  by (simp add: load_window_def)

lemma load_window_unreadable: "load_window fromisoformat Unreadable = Inl SlidingWindowStateError"
  by (simp add: load_window_def)

lemma load_window_version_mismatch:
  "dict_get d ''version'' JNull \<noteq> JStr ''1'' \<Longrightarrow>
   load_window fromisoformat (Parsed (JObj d)) = Inl SlidingWindowStateError"
  by (simp add: load_window_def STATE_VERSION_def)

lemma load_window_object_error:
  "load_window fromisoformat (Parsed (JObj d)) = Inl e \<Longrightarrow> e = SlidingWindowStateError"
  by (auto simp add: load_window_def split: if_splits option.splits)

lemma load_window_non_object:
  "(\<forall>d. state \<noteq> JObj d) \<Longrightarrow> load_window fromisoformat (Parsed state) = Inl AttributeError"
  by (cases state) (simp_all add: load_window_def)

text \<open>
  Claim C6, at the input where the code leaves it. The file exists and holds the JSON
  document \<open>[]\<close>: it parses, it has no version field and it cannot be deserialized into
  turns. \<open>state.get("version")\<close> is evaluated outside both \<open>try\<close> blocks and a list has no
  \<open>get\<close>: the call ends with \<open>AttributeError\<close>, not with \<open>SlidingWindowStateError\<close>.
\<close>

theorem load_window_list_document_raises_attribute_error:
  "load_window fromisoformat (Parsed (JArr [])) = Inl AttributeError \<and>
   load_window fromisoformat (Parsed (JArr [])) \<noteq> Inl SlidingWindowStateError"
  by (simp add: load_window_def)

section \<open>The governor fails\<close>

text \<open>
  Claim C5. When \<open>govern\<close> raises \<open>RetrievalError\<close>, the engine goes on with the routing
  decision \<open>{matched_block_id: null, is_new_topic: true, suggested_label: "General
  Discussion"}\<close> and with no memories, no facts and no dossiers: the turn is handled exactly
  as the turn of an engine whose governor returned these four values.
\<close>

theorem retrieval_error_falls_back_to_default_routing:
  assumes "govern e user_query (current_day e) = Inl RetrievalError"
  shows "govern_with_fallback e user_query (current_day e) = Inr (default_routing, [], [], []) \<and>
         default_routing =
           \<lparr>matched_block_id = None, is_new_topic = Some True,
            suggested_label = Some ''General Discussion''\<rparr> \<and>
         handle_chat e l user_query session =
           handle_chat (e\<lparr>govern := (\<lambda>q d. Inr (default_routing, [], [], []))\<rparr>) l user_query session"
proof -
  define e' where "e' = e\<lparr>govern := (\<lambda>q d. Inr (default_routing, [], [], []))\<rparr>"
  have gf: "govern_with_fallback e user_query (current_day e) = Inr (default_routing, [], [], [])"
    using assms by (simp add: govern_with_fallback_def)
  have gf': "govern_with_fallback e' user_query (current_day e) = Inr (default_routing, [], [], [])"
    by (simp add: govern_with_fallback_def e'_def)
  have fld: "api_client_available e' = api_client_available e" "chunk_engine e' = chunk_engine e"
    "fact_scrubber e' = fact_scrubber e" "nano_keywords e' = nano_keywords e"
    "current_day e' = current_day e" "new_turn_id e' = new_turn_id e"
    "new_block_id e' = new_block_id e" "summarize e' = summarize e"
    "update_facts_block_id e' = update_facts_block_id e"
    "get_facts_for_block e' = get_facts_for_block e"
    "hydrate_bridge_block e' = hydrate_bridge_block e"
    "query_external_api e' = query_external_api e" "extract_metadata e' = extract_metadata e"
    "append_turn_to_block e' = append_turn_to_block e" "log_turn e' = log_turn e"
    "add_turn e' = add_turn e"
    by (simp_all add: e'_def)
  have lg: "log_conversation_turn e' u a s = log_conversation_turn e u a s" for u a s
    unfolding log_conversation_turn_def fld ..
  have p: "persist_turn e' b u t c s m = persist_turn e b u t c s m" for b u t c s m
    unfolding persist_turn_def lg fld ..
  have c: "chunk_query e' user_query = chunk_query e user_query"
    unfolding chunk_query_def fld ..
  have f: "start_fact_extraction e' user_query ch = start_fact_extraction e user_query ch" for ch
    unfolding start_fact_extraction_def fld ..
  have k: "link_facts e' t b = link_facts e t b" for t b
    unfolding link_facts_def fld ..
  have r: "generate_response e' b m u n d = generate_response e b m u n d" for b m u n d
    unfolding generate_response_def fld ..
  have s: "strip_metadata e' x = strip_metadata e x" for x
    unfolding strip_metadata_def fld ..
  have "chat_body e' l user_query session = chat_body e l user_query session"
    unfolding chat_body_def gf gf' c f k r s p fld ..
  then have "handle_chat e' l user_query session = handle_chat e l user_query session"
    unfolding handle_chat_def lg fld by simp
  with gf show ?thesis
    by (simp add: e'_def default_routing_def)
qed

text \<open>
  The theorem at work: the governor raises \<open>RetrievalError\<close>, the turn ends with status
  \<open>SUCCESS\<close> in a new block labelled \<open>General Discussion\<close>.
\<close>

theorem retrieval_error_falls_back_to_default_routing_witness:
  "govern retrieval_failing_env ''hi'' (current_day retrieval_failing_env) = Inl RetrievalError \<and>
   handle_chat retrieval_failing_env [] ''hi'' ''s1'' =
     (Inr (success_response ''hello'' []),
      [\<lparr>block_id = ''bb_2'', block_day_id = ''2025-12-15'', block_status = ACTIVE,
        topic_label = ''General Discussion'', block_keywords = [], summary = None\<rparr>],
      [(''turn_1'', [''hi''])])"
proof -
  have h: "govern retrieval_failing_env ''hi'' (current_day retrieval_failing_env) = Inl RetrievalError"
    by (simp add: retrieval_failing_env_def quiet_env_def)
  have "handle_chat (retrieval_failing_env\<lparr>govern := (\<lambda>q d. Inr (default_routing, [], [], []))\<rparr>)
          [] ''hi'' ''s1'' =
     (Inr (success_response ''hello'' []),
      [\<lparr>block_id = ''bb_2'', block_day_id = ''2025-12-15'', block_status = ACTIVE,
        topic_label = ''General Discussion'', block_keywords = [], summary = None\<rparr>],
      [(''turn_1'', [''hi''])])"
    by (simp add: retrieval_failing_env_def quiet_env_def handle_chat_def chat_body_def
        chunk_query_def start_fact_extraction_def govern_with_fallback_def execute_routing_def
        default_routing_def truthy_id_def get_active_bridge_blocks_def create_new_bridge_block_def
        force_pause_def link_facts_def generate_response_def strip_metadata_def persist_turn_def
        log_conversation_turn_def)
  with h retrieval_error_falls_back_to_default_routing [OF h, of "[]" "''s1''"]
  show ?thesis by simp
qed

section \<open>The persistence step\<close>

lemma persist_turn_append_raises:
  "append_turn_to_block e bid
     \<lparr>td_turn_id = new_turn_id e, td_user_message = u, td_ai_response = t, td_chunks = c\<rparr> = Inl err
   \<Longrightarrow> fst (persist_turn e bid u t c s m) = Inl err"
  by (simp add: persist_turn_def)

lemma persist_turn_log_raises:
  "fst (log_conversation_turn e u t s) = Inl err' \<Longrightarrow>
   \<exists>err. fst (persist_turn e bid u t c s m) = Inl err"
  by (cases "log_conversation_turn e u t s")
     (auto simp add: persist_turn_def split: sum.splits)

lemma handle_chat_raised_is_error:
  assumes "api_client_available e" and "fst (chat_body e l u s) = Inl err"
  shows "(case fst (handle_chat e l u s) of Inl x \<Rightarrow> True | Inr r \<Rightarrow> status r = ERROR)"
proof -
  obtain l1 calls where cb: "chat_body e l u s = (Inl err, l1, calls)"
    using assms(2) by (cases "chat_body e l u s") auto
  obtain r calls' where lg: "log_conversation_turn e u fallback_response ''default_session'' = (r, calls')"
    by (cases "log_conversation_turn e u fallback_response ''default_session''") auto
  show ?thesis
    using assms(1) cb lg
    by (cases err; cases r)
       (simp_all add: handle_chat_def connection_error_response_def chat_error_response_def)
qed

lemma process_user_message_raised_is_error:
  assumes "api_client_available e" and "fst (chat_body e l u s) = Inl err"
  shows "status (fst (process_user_message e l u s)) = ERROR"
proof (cases "trigger_scribe e")
  case (Some x)
  then show ?thesis
    by (simp add: process_user_message_def engine_error_response_def)
next
  case None
  obtain r l1 calls where hc: "handle_chat e l u s = (r, l1, calls)"
    by (cases "handle_chat e l u s") auto
  with handle_chat_raised_is_error [OF assms] None show ?thesis
    by (cases r) (simp_all add: process_user_message_def engine_error_response_def)
qed

text \<open>
  Claim C1, at the input where the code leaves it. Every collaborator answers and
  \<open>append_turn_to_block\<close> reports failure by returning \<open>False\<close>. The engine prints the
  failure, logs the turn and returns the response with status \<open>SUCCESS\<close>. (When the
  persistence step raises instead, the status is \<open>ERROR\<close>:
  \<open>process_user_message_raised_is_error\<close>.)
\<close>

theorem append_failure_is_returned_as_success:
  "append_turn_to_block (quiet_env (Inr False)) (Some ''bb_2'')
     \<lparr>td_turn_id = ''turn_20251215_120000'', td_user_message = ''hi'',
      td_ai_response = ''hello'', td_chunks = []\<rparr> = Inr False \<and>
   fst (process_user_message (quiet_env (Inr False)) [] ''hi'' ''s1'') =
     \<lparr>response_text = ''hello'', status = SUCCESS, detected_intent = ''chat'',
      detected_action = ''chat'', contexts_retrieved = 0, error_message = None\<rparr>"
  by (simp add: quiet_env_def process_user_message_def handle_chat_def chat_body_def
      chunk_query_def start_fact_extraction_def govern_with_fallback_def execute_routing_def
      default_routing_def truthy_id_def get_active_bridge_blocks_def create_new_bridge_block_def
      force_pause_def link_facts_def generate_response_def strip_metadata_def persist_turn_def
      log_conversation_turn_def success_response_def)

section \<open>Routing execution and the active block of a day\<close>

text \<open>
  The engine asks the storage for the active blocks and takes the first one whose status
  is \<open>ACTIVE\<close>. What it finds is the first \<open>ACTIVE\<close> row of the day, whether or not the
  query also answers rows of the day with another status.
\<close>

lemma find_active_any_query:
  "keep ACTIVE \<Longrightarrow>
   List.find (\<lambda>b. block_status b = ACTIVE)
     (filter (\<lambda>b. block_day_id b = day \<and> keep (block_status b)) l) =
   List.find (\<lambda>b. block_status b = ACTIVE) (get_active_bridge_blocks day l)"
  by (induction l) (auto simp add: get_active_bridge_blocks_def)



subsection \<open>Pausing the active block\<close>








subsection \<open>Reactivating a block\<close>


subsection \<open>Creating a block\<close>




lemma create_leaves_other_days:
  "day' \<noteq> day \<Longrightarrow>
   active_blocks_of_day day' (snd (create_new_bridge_block sm new_id day label kws l)) =
   active_blocks_of_day day' l"
  by (induction l)
     (simp_all add: create_new_bridge_block_def force_pause_def active_blocks_of_day_def)



section \<open>What is embedded when a turn is logged\<close>

lemma logged_turn_texts:
  assumes "fst (log_conversation_turn e user_msg assistant_msg session) = Inr ()"
  shows "\<exists>turn. log_turn e session user_msg assistant_msg = Inr turn \<and>
           embedded_texts (log_conversation_turn e user_msg assistant_msg session) =
             (case chunk_engine e of
                None \<Rightarrow> [user_msg]
              | Some chunk_turn \<Rightarrow> sentence_texts (chunk_turn user_msg (logged_turn_id turn)))"
proof (cases "log_turn e session user_msg assistant_msg")
  case (Inl err)
  with assms show ?thesis
    by (simp add: log_conversation_turn_def)
next
  case (Inr turn)
  with assms have "add_turn e turn = None"
    by (cases "add_turn e turn") (simp_all add: log_conversation_turn_def)
  with Inr show ?thesis
    by (simp add: log_conversation_turn_def embedded_texts_def Let_def split: option.splits)
qed

text \<open>
  Claim C9. Take a chunk engine whose sentence texts are pieces of the text it is given
  (they do not depend on the turn id). For every user message and every two assistant
  responses whose turns are logged, \<open>log_conversation_turn\<close> passes the same texts to the
  embedding storage: they are determined by the user message alone (lemma
  \<open>logged_turn_texts\<close> says which texts they are).
\<close>

theorem only_user_text_is_embedded:
  assumes "chunker_reads_text_only e"
    and "fst (log_conversation_turn e user_msg assistant_msg session) = Inr ()"
    and "fst (log_conversation_turn e user_msg assistant_msg' session) = Inr ()"
  shows "embedded_texts (log_conversation_turn e user_msg assistant_msg session) =
         embedded_texts (log_conversation_turn e user_msg assistant_msg' session)"
proof -
  from logged_turn_texts [OF assms(2)] obtain turn where
    "log_turn e session user_msg assistant_msg = Inr turn \<and>
     embedded_texts (log_conversation_turn e user_msg assistant_msg session) =
          (case chunk_engine e of
             None \<Rightarrow> [user_msg]
           | Some chunk_turn \<Rightarrow> sentence_texts (chunk_turn user_msg (logged_turn_id turn)))" ..
  then have t: "embedded_texts (log_conversation_turn e user_msg assistant_msg session) =
          (case chunk_engine e of
             None \<Rightarrow> [user_msg]
           | Some chunk_turn \<Rightarrow> sentence_texts (chunk_turn user_msg (logged_turn_id turn)))" ..
  from logged_turn_texts [OF assms(3)] obtain turn' where
    "log_turn e session user_msg assistant_msg' = Inr turn' \<and>
     embedded_texts (log_conversation_turn e user_msg assistant_msg' session) =
          (case chunk_engine e of
             None \<Rightarrow> [user_msg]
           | Some chunk_turn \<Rightarrow> sentence_texts (chunk_turn user_msg (logged_turn_id turn')))" ..
  then have t': "embedded_texts (log_conversation_turn e user_msg assistant_msg' session) =
          (case chunk_engine e of
             None \<Rightarrow> [user_msg]
           | Some chunk_turn \<Rightarrow> sentence_texts (chunk_turn user_msg (logged_turn_id turn')))" ..
  show ?thesis
  proof (cases "chunk_engine e")
    case None
    with t t' show ?thesis by simp
  next
    case (Some chunk_turn)
    with assms(1) have "sentence_texts (chunk_turn user_msg (logged_turn_id turn)) =
        sentence_texts (chunk_turn user_msg (logged_turn_id turn'))"
      by (simp add: chunker_reads_text_only_def)
    with t t' Some show ?thesis by simp
  qed
qed

text \<open>
  The theorem at work: the turn id depends on the assistant response, the chunk engine
  makes one sentence of the user message, and both runs embed that sentence.
\<close>

theorem only_user_text_is_embedded_witness:
  "chunker_reads_text_only sentence_env \<and>
   fst (log_conversation_turn sentence_env ''I am vegetarian.'' ''Noted.'' ''s1'') = Inr () \<and>
   fst (log_conversation_turn sentence_env ''I am vegetarian.'' ''Enjoy the steak.'' ''s1'') = Inr () \<and>
   embedded_texts (log_conversation_turn sentence_env ''I am vegetarian.'' ''Noted.'' ''s1'') =
     [''I am vegetarian.''] \<and>
   embedded_texts (log_conversation_turn sentence_env ''I am vegetarian.'' ''Enjoy the steak.'' ''s1'') =
     [''I am vegetarian.'']"
proof -
  have h1: "chunker_reads_text_only sentence_env"
    by (simp add: chunker_reads_text_only_def sentence_env_def quiet_env_def sentence_texts_def)
  have h2: "fst (log_conversation_turn sentence_env ''I am vegetarian.'' ''Noted.'' ''s1'') = Inr ()"
    by (simp add: log_conversation_turn_def sentence_env_def quiet_env_def sentence_texts_def)
  have h3: "fst (log_conversation_turn sentence_env ''I am vegetarian.'' ''Enjoy the steak.'' ''s1'') = Inr ()"
    by (simp add: log_conversation_turn_def sentence_env_def quiet_env_def sentence_texts_def)
  have v: "embedded_texts (log_conversation_turn sentence_env ''I am vegetarian.'' ''Noted.'' ''s1'') =
     [''I am vegetarian.'']"
    by (simp add: log_conversation_turn_def sentence_env_def quiet_env_def sentence_texts_def
        embedded_texts_def)
  from only_user_text_is_embedded [OF h1 h2 h3] h1 h2 h3 v show ?thesis
    by simp
qed

section \<open>The convenience function of the chunker module\<close>

text \<open>
  Claim C10. The module binds no name \<open>SemanticChunker\<close> and the builtins hold none, so
  for every user message, assistant response and maximal chunk size the call of
  \<open>chunk_conversation\<close> ends with \<open>NameError\<close> for that name and returns no list of chunks.
\<close>

theorem chunk_conversation_raises_name_error:
  "builtins ''SemanticChunker'' = None \<Longrightarrow>
   chunk_conversation builtins user_msg assistant_msg max_chunk_size =
     Inl (NameError ''SemanticChunker'')"
  by (simp add: chunk_conversation_def lookup_name_def chunker_module_globals_def)

theorem chunk_conversation_raises_name_error_witness:
  "some_builtins ''SemanticChunker'' = None \<and>
   chunk_conversation some_builtins ''What is a bicycle?'' ''A two-wheeled vehicle.'' 400 =
     Inl (NameError ''SemanticChunker'')"
proof -
  have h: "some_builtins ''SemanticChunker'' = None"
    by (simp add: some_builtins_def)
  show ?thesis
    using h chunk_conversation_raises_name_error
      [of some_builtins "''What is a bicycle?''" "''A two-wheeled vehicle.''" 400]
    by simp
qed

end
